theory Spec2Isabelle
  imports Complex_Main "HOL-Library.FSet"
begin

section \<open>vfx: a frame extractor driving ffmpeg\<close>

text \<open>
  A shallow embedding of \<^verbatim>\<open>vfx.py\<close>. Python's \<^verbatim>\<open>int\<close> is \<^typ>\<open>int\<close>. Python's
  \<^verbatim>\<open>float\<close> is read as \<^typ>\<open>rat\<close>: division and multiplication are exact, so rounding,
  underflow, infinities and NaN of IEEE doubles are outside the model. Everything the
  script asks of its surroundings (the \<^verbatim>\<open>os.path\<close> functions of the platform, the text of
  a float inside an f-string, what ffprobe and ffmpeg answer, what the directory holds,
  what the user types) is a field of the record \<open>env\<close>; everything the script changes
  (directories it creates, lines it prints, the external commands it runs) is a field
  of the record \<open>world\<close>, which every function takes and returns.
\<close>

subsection \<open>Text of integers\<close>

text \<open>\<^verbatim>\<open>str(n)\<close> for a natural number: its decimal digits, most significant first.\<close>

fun str_nat :: "nat \<Rightarrow> string" where
  "str_nat n =
     (if n < 10 then [''0123456789'' ! n]
      else str_nat (n div 10) @ [''0123456789'' ! (n mod 10)])"

declare str_nat.simps [simp del]

text \<open>An integer inside an f-string, \<^verbatim>\<open>f"{i}"\<close>: a minus sign when negative.\<close>

definition str_int :: "int \<Rightarrow> string" where
  "str_int i = (if i < 0 then CHR ''-'' # str_nat (nat (- i)) else str_nat (nat i))"

text \<open>\<^verbatim>\<open>f"{k:03d}"\<close> for \<open>k \<ge> 0\<close>: zero-padded on the left to three digits.\<close>

definition pad3 :: "nat \<Rightarrow> string" where
  "pad3 k = replicate (3 - length (str_nat k)) CHR ''0'' @ str_nat k"

text \<open>The digit a character stands for, and the number a digit string stands for.\<close>

definition digit_val :: "char \<Rightarrow> nat" where
  "digit_val c = of_char c - 48"

definition nat_of_str :: "string \<Rightarrow> nat" where
  "nat_of_str cs = foldl (\<lambda>acc c. 10 * acc + digit_val c) 0 cs"

text \<open>\<^verbatim>\<open>str.endswith\<close> with one suffix.\<close>

definition endswith :: "string \<Rightarrow> string \<Rightarrow> bool" where
  "endswith s suf \<longleftrightarrow> length suf \<le> length s \<and> drop (length s - length suf) s = suf"

subsection \<open>Surroundings, state and errors\<close>

datatype error = ValueError | ZeroDivisionError | OSError | SystemExit nat

text \<open>
  \<open>ffprobe_duration f\<close> is \<^verbatim>\<open>float(result.stdout)\<close> of the ffprobe call on \<open>f\<close>: \<open>None\<close> when
  the output is empty or not a number and \<^verbatim>\<open>float\<close> raises \<^verbatim>\<open>ValueError\<close>.
  \<open>ffmpeg_status argv\<close> is the exit status of running \<open>argv\<close>. \<open>listdir\<close> is \<open>None\<close> when
  \<^verbatim>\<open>os.listdir\<close> raises. \<open>answer f\<close> is what the user types at the prompt for \<open>f\<close>, after
  \<^verbatim>\<open>strip().lower()\<close>. Each answer is a function of the question: asking twice gives the
  same answer.
\<close>

record env =
  basename :: "string \<Rightarrow> string"
  dirname :: "string \<Rightarrow> string"
  splitext :: "string \<Rightarrow> string \<times> string"
  join :: "string \<Rightarrow> string \<Rightarrow> string"
  repr_float :: "rat \<Rightarrow> string"
  ffmpeg_present :: bool
  ffprobe_duration :: "string \<Rightarrow> rat option"
  ffmpeg_status :: "string list \<Rightarrow> int"
  listdir :: "string \<Rightarrow> string list option"
  walk :: "string \<Rightarrow> (string \<times> string list) list"
  answer :: "string \<Rightarrow> string"

text \<open>
  The external commands in the order they are run: an ffprobe call on a file, the
  single-pass ffmpeg call with its exit status, the entry into the fallback extractor,
  and a per-frame ffmpeg call with its timestamp and exit status.
\<close>

datatype event =
    Probe string
  | Fast "string list" int
  | Fallback string
  | Frame rat "string list" int

record world =
  fs :: "string fset"
  stdout :: "string list"
  trace :: "event list"

definition emit :: "event \<Rightarrow> world \<Rightarrow> world" where
  "emit e s = s\<lparr>trace := trace s @ [e]\<rparr>"

definition print :: "string \<Rightarrow> world \<Rightarrow> world" where
  "print l s = s\<lparr>stdout := stdout s @ [l]\<rparr>"

text \<open>\<^verbatim>\<open>if not os.path.exists(output_dir): os.makedirs(output_dir)\<close>\<close>

definition ensure_dir :: "string \<Rightarrow> world \<Rightarrow> world" where
  "ensure_dir output_dir s =
     (if output_dir |\<notin>| fs s then s\<lparr>fs := finsert output_dir (fs s)\<rparr> else s)"

fun is_fast :: "event \<Rightarrow> bool" where
  "is_fast (Fast argv st) = True"
| "is_fast e = False"

fun is_fallback :: "event \<Rightarrow> bool" where
  "is_fallback (Fallback f) = True"
| "is_fallback e = False"

text \<open>The timestamps of the per-frame calls in a trace, in order.\<close>

fun frame_times :: "event list \<Rightarrow> rat list" where
  "frame_times [] = []"
| "frame_times (Frame t argv st # es) = t # frame_times es"
| "frame_times (e # es) = frame_times es"

subsection \<open>The fallback extractor\<close>

text \<open>
  Lines 45 to 51: the filter of one per-frame call, the timestamp threshold and the
  timestamp reset first, the scaling directive after them.
\<close>

definition fallback_vf_args :: "env \<Rightarrow> rat \<Rightarrow> int \<Rightarrow> int \<Rightarrow> string" where
  "fallback_vf_args E timestamp width height =
     (let vf_args = ''select='' @ [CHR 0x27] @ ''gte(t'' @ [CHR 0x5C] @ '','' @
                    repr_float E timestamp @ '')'' @ [CHR 0x27] @ '',setpts=PTS-STARTPTS''
      in if width > 0 \<and> height > 0 then
           vf_args @ '',scale='' @ str_int width @ '':'' @ str_int height
         else if width > 0 then vf_args @ '',scale='' @ str_int width @ '':-1''
         else if height > 0 then vf_args @ '',scale=-1:'' @ str_int height
         else vf_args)"

text \<open>
  The body of the loop of lines 42 to 64 at index \<open>i\<close>. The exit status of the call is
  recorded in the trace and not looked at: \<^verbatim>\<open>subprocess.run\<close> is called without
  \<^verbatim>\<open>check=True\<close>. The flags \<^verbatim>\<open>silent\<close> and \<^verbatim>\<open>info\<close> only redirect the output of ffmpeg.
\<close>

definition fallback_frame ::
  "env \<Rightarrow> string \<Rightarrow> string \<Rightarrow> string \<Rightarrow> rat \<Rightarrow> int \<Rightarrow> int \<Rightarrow> nat \<Rightarrow> world \<Rightarrow> world" where
  "fallback_frame E video_file output_dir base_name interval width height i s =
     (let timestamp = of_nat i * interval;
          output_file = join E output_dir (base_name @ ''_'' @ pad3 (i + 1) @ ''.jpg'');
          vf_args = fallback_vf_args E timestamp width height;
          ffmpeg_command = [''ffmpeg'', ''-i'', video_file, ''-vf'', vf_args,
                            ''-vframes'', ''1'', ''-q:v'', ''2'', output_file]
      in emit (Frame timestamp ffmpeg_command (ffmpeg_status E ffmpeg_command)) s)"

text \<open>
  \<^verbatim>\<open>extract_frames_fallback\<close>. \<^verbatim>\<open>float(result.stdout)\<close> raises \<^verbatim>\<open>ValueError\<close> on a
  missing duration, \<^verbatim>\<open>duration / frame_count\<close> raises \<^verbatim>\<open>ZeroDivisionError\<close> when the count
  is 0, and \<^verbatim>\<open>range(frame_count)\<close> is empty for a negative count.
\<close>

definition extract_frames_fallback ::
  "env \<Rightarrow> string \<Rightarrow> string \<Rightarrow> int \<Rightarrow> bool \<Rightarrow> bool \<Rightarrow> int \<Rightarrow> int \<Rightarrow> world
     \<Rightarrow> (error + unit) \<times> world" where
  "extract_frames_fallback E video_file output_dir frame_count silent info width height s =
     (let base_name = fst (splitext E (basename E video_file));
          s1 = ensure_dir output_dir (emit (Fallback video_file) s);
          s2 = emit (Probe video_file) s1
      in case ffprobe_duration E video_file of
           None \<Rightarrow> (Inl ValueError, s2)
         | Some duration \<Rightarrow>
             if frame_count = 0 then (Inl ZeroDivisionError, s2)
             else
               let interval = duration / of_int frame_count
               in (Inr (),
                   fold (fallback_frame E video_file output_dir base_name interval width height)
                     [0..<nat frame_count] s2))"

subsection \<open>The fast extractor\<close>

text \<open>
  Lines 73 to 81: the rate expression. Under an interval the duration is not asked for;
  otherwise it is, and the same two faults as in the fallback can be raised.
\<close>

definition sampling_filter ::
  "env \<Rightarrow> string \<Rightarrow> int \<Rightarrow> int \<Rightarrow> world \<Rightarrow> (error + string) \<times> world" where
  "sampling_filter E video_file frame_count time_interval s =
     (if time_interval > 0 then (Inr (''fps=1/'' @ str_int time_interval), s)
      else
        let s1 = emit (Probe video_file) s
        in case ffprobe_duration E video_file of
             None \<Rightarrow> (Inl ValueError, s1)
           | Some duration \<Rightarrow>
               if frame_count = 0 then (Inl ZeroDivisionError, s1)
               else
                 let interval = duration / of_int frame_count
                 in (Inr (''fps=1/'' @ repr_float E interval), s1))"

text \<open>Lines 83 to 88: the scaling directive is added to the filter built so far.\<close>

definition fast_vf_args :: "string \<Rightarrow> int \<Rightarrow> int \<Rightarrow> string" where
  "fast_vf_args vf_args width height =
     (if width > 0 \<and> height > 0 then
        vf_args @ '',scale='' @ str_int width @ '':'' @ str_int height
      else if width > 0 then vf_args @ '',scale='' @ str_int width @ '':-1''
      else if height > 0 then vf_args @ '',scale=-1:'' @ str_int height
      else vf_args)"

text \<open>
  \<^verbatim>\<open>extract_frames\<close>. The handler of line 105 catches \<^verbatim>\<open>CalledProcessError\<close> only, which
  only the ffmpeg call with \<^verbatim>\<open>check=True\<close> raises, on a non-zero exit status; a fault
  of the rate expression leaves the function.
\<close>

definition extract_frames ::
  "env \<Rightarrow> string \<Rightarrow> string \<Rightarrow> int \<Rightarrow> int \<Rightarrow> bool \<Rightarrow> bool \<Rightarrow> int \<Rightarrow> int \<Rightarrow> world
     \<Rightarrow> (error + unit) \<times> world" where
  "extract_frames E video_file output_dir frame_count time_interval silent info width height s =
     (let base_name = fst (splitext E (basename E video_file));
          s0 = ensure_dir output_dir s
      in case sampling_filter E video_file frame_count time_interval s0 of
           (Inl e, s1) \<Rightarrow> (Inl e, s1)
         | (Inr vf, s1) \<Rightarrow>
             let vf_args = fast_vf_args vf width height;
                 output_pattern = join E output_dir (base_name @ ''_%03d.jpg'');
                 ffmpeg_command = [''ffmpeg'', ''-i'', video_file, ''-vf'', vf_args,
                                   ''-pix_fmt'', ''yuv420p'', ''-q:v'', ''2'', output_pattern];
                 status = ffmpeg_status E ffmpeg_command;
                 s2 = emit (Fast ffmpeg_command status) s1
             in if status = 0 then (Inr (), s2)
                else
                  let s3 = (if \<not> silent \<and> \<not> info then
                              print (''Fast method failed for '' @ video_file @
                                     ''. Falling back to slower method.'') s2
                            else s2)
                  in extract_frames_fallback E video_file output_dir frame_count
                       silent info width height s3)"

subsection \<open>One file\<close>

text \<open>
  The loop of lines 137 to 141, over the paths that exist when it runs: the candidate
  in hand and the counter for the next one.
\<close>

function unique_folder :: "string fset \<Rightarrow> string \<Rightarrow> string \<Rightarrow> int \<Rightarrow> string" where
  "unique_folder paths output_dir unique_folder_name counter =
     (if unique_folder_name |\<in>| paths then
        unique_folder paths output_dir (output_dir @ ''_'' @ str_int counter) (counter + 1)
      else unique_folder_name)"
  by pat_completeness auto

text \<open>Lines 135 and 136: the folder \<^verbatim>\<open><stem>_frames\<close> beside the video.\<close>

definition frames_folder :: "env \<Rightarrow> string \<Rightarrow> string" where
  "frames_folder E video_file =
     (let base_name = fst (splitext E (basename E video_file))
      in join E (dirname E video_file) (base_name @ ''_frames''))"

text \<open>Lines 132 to 142: where the frames of a video go.\<close>

definition allocate_output_dir :: "env \<Rightarrow> string \<Rightarrow> bool \<Rightarrow> string fset \<Rightarrow> string" where
  "allocate_output_dir E video_file same_dir paths =
     (if same_dir then dirname E video_file
      else
        let output_dir = frames_folder E video_file
        in unique_folder paths output_dir output_dir 1)"

definition is_video :: "string \<Rightarrow> bool" where
  "is_video video_file \<longleftrightarrow>
     endswith video_file ''.mp4'' \<or> endswith video_file ''.mov'' \<or>
     endswith video_file ''.avi'' \<or> endswith video_file ''.mkv''"

text \<open>Lines 129 to 144: what happens to a video once the prompt has let it through.\<close>

definition process_video ::
  "env \<Rightarrow> string \<Rightarrow> bool \<Rightarrow> bool \<Rightarrow> int \<Rightarrow> int \<Rightarrow> bool \<Rightarrow> int \<Rightarrow> int \<Rightarrow> world
     \<Rightarrow> (error + unit) \<times> world" where
  "process_video E video_file silent info frame_count time_interval same_dir width height s =
     (let s1 = (if \<not> silent \<and> info then print (''Processing: '' @ video_file) s else s);
          output_dir = allocate_output_dir E video_file same_dir (fs s1)
      in extract_frames E video_file output_dir frame_count time_interval
           silent info width height s1)"

text \<open>
  \<^verbatim>\<open>process_file\<close>. A file without a video extension is passed over. At the prompt,
  \<^verbatim>\<open>n\<close> passes the file over, \<^verbatim>\<open>a\<close> leaves the program through \<^verbatim>\<open>sys.exit()\<close>, and
  any other answer lets the file through.
\<close>

definition process_file ::
  "env \<Rightarrow> string \<Rightarrow> bool \<Rightarrow> bool \<Rightarrow> int \<Rightarrow> int \<Rightarrow> bool \<Rightarrow> bool \<Rightarrow> int \<Rightarrow> int \<Rightarrow> world
     \<Rightarrow> (error + unit) \<times> world" where
  "process_file E video_file silent info frame_count time_interval prompt same_dir width height s =
     (if is_video video_file then
        if prompt then
          let s1 = print (''Process '' @ video_file @ ''? (y/n/a) '') s;
              response = answer E video_file
          in if response = ''n'' then (Inr (), s1)
             else if response = ''a'' then (Inl (SystemExit 0), print ''Process aborted.'' s1)
             else process_video E video_file silent info frame_count time_interval
                    same_dir width height s1
        else process_video E video_file silent info frame_count time_interval
               same_dir width height s
      else (Inr (), s))"

subsection \<open>A folder, and the whole run\<close>

text \<open>
  The two loops of \<^verbatim>\<open>process_folder\<close> call \<^verbatim>\<open>process_file\<close> on one path after the
  other; an exception that leaves one call ends the loop.
\<close>

fun process_files ::
  "env \<Rightarrow> string list \<Rightarrow> bool \<Rightarrow> bool \<Rightarrow> int \<Rightarrow> int \<Rightarrow> bool \<Rightarrow> bool \<Rightarrow> int \<Rightarrow> int \<Rightarrow> world
     \<Rightarrow> (error + unit) \<times> world" where
  "process_files E [] silent info frame_count time_interval prompt same_dir width height s =
     (Inr (), s)"
| "process_files E (f # files) silent info frame_count time_interval prompt same_dir width height s =
     (case process_file E f silent info frame_count time_interval prompt same_dir width height s of
        (Inl e, s') \<Rightarrow> (Inl e, s')
      | (Inr u, s') \<Rightarrow>
          process_files E files silent info frame_count time_interval prompt same_dir
            width height s')"

definition process_folder ::
  "env \<Rightarrow> string \<Rightarrow> bool \<Rightarrow> bool \<Rightarrow> bool \<Rightarrow> int \<Rightarrow> int \<Rightarrow> bool \<Rightarrow> bool \<Rightarrow> int \<Rightarrow> int \<Rightarrow> world
     \<Rightarrow> (error + unit) \<times> world" where
  "process_folder E folder recursive silent info frame_count time_interval prompt same_dir
     width height s =
     (if recursive then
        process_files E
          (concat (map (\<lambda>(root, files). map (join E root) files) (walk E folder)))
          silent info frame_count time_interval prompt same_dir width height s
      else
        case listdir E folder of
          None \<Rightarrow> (Inl OSError, s)
        | Some names \<Rightarrow>
            process_files E (map (join E folder) names)
              silent info frame_count time_interval prompt same_dir width height s)"

text \<open>
  The command line as the user wrote it: a switch with a value is \<open>None\<close> when it was not
  given. \<^verbatim>\<open>parse_args\<close> fills in the defaults of lines 148 to 159.
\<close>

record cmdline =
  given_source :: "string option"
  given_R :: bool
  given_S :: bool
  given_I :: bool
  given_N :: "int option"
  given_T :: "int option"
  given_X :: "int option"
  given_Y :: "int option"
  given_P :: bool
  given_D :: bool
  given_help :: bool

record namespace =
  source :: string
  arg_R :: bool
  arg_S :: bool
  arg_I :: bool
  arg_N :: int
  arg_T :: int
  arg_X :: int
  arg_Y :: int
  arg_P :: bool
  arg_D :: bool
  arg_help :: bool

definition parse_args :: "cmdline \<Rightarrow> namespace" where
  "parse_args c =
     \<lparr>source = (case given_source c of None \<Rightarrow> ''.'' | Some p \<Rightarrow> p),
      arg_R = given_R c, arg_S = given_S c, arg_I = given_I c,
      arg_N = (case given_N c of None \<Rightarrow> 16 | Some v \<Rightarrow> v),
      arg_T = (case given_T c of None \<Rightarrow> 0 | Some v \<Rightarrow> v),
      arg_X = (case given_X c of None \<Rightarrow> 0 | Some v \<Rightarrow> v),
      arg_Y = (case given_Y c of None \<Rightarrow> 0 | Some v \<Rightarrow> v),
      arg_P = given_P c, arg_D = given_D c, arg_help = given_help c\<rparr>"

definition ffmpeg_required :: string where
  "ffmpeg_required = ''ffmpeg is required to run this script. Download ffmpeg from here: https://ffmpeg.org. See ffmpeg documentation for installation information''"

definition only_one_switch :: string where
  "only_one_switch = ''Error: Only one of the switches -N or -T can be used at a time.''"

text \<open>
  The text \<^verbatim>\<open>print_help\<close> prints, line by line. The quotation marks around the 0 of
  \<^verbatim>\<open>-N\<close> and \<^verbatim>\<open>-T\<close> are the UTF-8 bytes of U+2018 and U+2019.
\<close>

definition help_text :: "string list" where
  "help_text =
     [[],
      ''    Simple video frame extraction Python tool v 1.0.'',
      ''    Syntax: '',
      ''    vfx [-R] [-S] [-I] [-N x] [-T x] [-X x] [-Y x] [-P] [-D] [-H] [source_file | source_path]'',
      ''    -R (recursive): All files in the current or specified directory and subdirectories are processed.'',
      ''    -S (silent mode): No text output shown.'',
      ''    -I (info): Only progress is shown, no diagnostic messages from ffmpeg.'',
      ''    -N x (number): For each specified video file, x evenly spaced video frames are extracted. If '' @
        [CHR 0xE2, CHR 0x80, CHR 0x98] @ ''0'' @ [CHR 0xE2, CHR 0x80, CHR 0x99] @
        '' is specified all frames are extracted.'',
      ''    -T x (time): For each x seconds, a frame is extracted. If '' @
        [CHR 0xE2, CHR 0x80, CHR 0x98] @ ''0'' @ [CHR 0xE2, CHR 0x80, CHR 0x99] @
        '' is specified all frames are extracted.'',
      ''    -X x (width): Set the desired width in pixels of the extracted images. If -Y is not also used, the height is set automatically to maintain aspect ratio.'',
      ''    -Y x (height): Set the desired height in pixels of the extracted images. If -X is not also used, the height is set automatically to maintain aspect ratio.'',
      ''    -P (prompt): For each found video file answer y (yes), n (no) or (a) abort, to process the file or not, or to abort the process all together.'',
      ''    -D (directory): All extracted files are saved together with the video file. Default is to create a new folder for the extracted frames.'',
      ''    -H: Show this help text.'',
      ''    '']"

text \<open>
  \<^verbatim>\<open>main\<close>. \<^verbatim>\<open>check_ffmpeg\<close> leaves through \<^verbatim>\<open>sys.exit(1)\<close> when ffmpeg does not run. The
  test of line 173 is never true, both values being integers once parsed.
\<close>

definition main :: "env \<Rightarrow> cmdline \<Rightarrow> world \<Rightarrow> (error + unit) \<times> world" where
  "main E c s =
     (let a = parse_args c
      in if \<not> ffmpeg_present E then (Inl (SystemExit 1), print ffmpeg_required s)
         else if arg_help a then (Inr (), s\<lparr>stdout := stdout s @ help_text\<rparr>)
         else if arg_N a \<noteq> 16 \<and> arg_T a \<noteq> 0 then (Inr (), print only_one_switch s)
         else process_folder E (source a) (arg_R a) (arg_S a) (arg_I a) (arg_N a) (arg_T a)
                (arg_P a) (arg_D a) (arg_X a) (arg_Y a) s)"

text \<open>The exit status of the process for an outcome of \<open>main\<close>.\<close>

fun exit_status :: "error + unit \<Rightarrow> nat" where
  "exit_status (Inr u) = 0"
| "exit_status (Inl (SystemExit code)) = code"
| "exit_status (Inl e) = 1"

subsection \<open>An instance of the surroundings\<close>

text \<open>
  To run the model on concrete inputs: the path functions of \<^verbatim>\<open>posixpath\<close>, the decimal
  expansion of a number cut after sixteen places (the text Python shows for a float
  whose value is such a short decimal), ffmpeg present, one flat directory, and a user who
  answers \<^verbatim>\<open>y\<close>.
\<close>

definition posix_basename :: "string \<Rightarrow> string" where
  "posix_basename p = rev (takeWhile (\<lambda>c. c \<noteq> CHR ''/'') (rev p))"

definition posix_dirname :: "string \<Rightarrow> string" where
  "posix_dirname p =
     (let head = rev (dropWhile (\<lambda>c. c \<noteq> CHR ''/'') (rev p))
      in if head \<noteq> [] \<and> head \<noteq> replicate (length head) CHR ''/''
         then rev (dropWhile (\<lambda>c. c = CHR ''/'') (rev head)) else head)"

definition posix_splitext :: "string \<Rightarrow> string \<times> string" where
  "posix_splitext p =
     (let name = posix_basename p;
          ext = rev (takeWhile (\<lambda>c. c \<noteq> CHR ''.'') (rev name));
          root = take (length name - length ext - 1) name
      in if CHR ''.'' \<in> set name \<and> (\<exists>c \<in> set root. c \<noteq> CHR ''.'')
         then (take (length p - length ext - 1) p, CHR ''.'' # ext) else (p, []))"

definition posix_join :: "string \<Rightarrow> string \<Rightarrow> string" where
  "posix_join a b =
     (if b \<noteq> [] \<and> hd b = CHR ''/'' then b
      else if a = [] \<or> last a = CHR ''/'' then a @ b
      else a @ ''/'' @ b)"

fun frac_digits :: "nat \<Rightarrow> rat \<Rightarrow> string" where
  "frac_digits 0 q = []"
| "frac_digits (Suc k) q =
     (let d = nat \<lfloor>q * 10\<rfloor>; r = q * 10 - of_nat d
      in (''0123456789'' ! d) # (if r = 0 then [] else frac_digits k r))"

definition decimal_text :: "rat \<Rightarrow> string" where
  "decimal_text q =
     (let a = \<bar>q\<bar>; whole = nat \<lfloor>a\<rfloor>
      in (if q < 0 then ''-'' else []) @ str_nat whole @ ''.'' @
         frac_digits 16 (a - of_nat whole))"

text \<open>
  Probes and exit statuses for the instance: every file has the duration \<open>d\<close>; no file
  has one; every file but \<open>g\<close> has the duration \<open>d\<close>; every call exits with \<open>code\<close>.
\<close>

definition duration_of :: "rat \<Rightarrow> string \<Rightarrow> rat option" where
  "duration_of d f = Some d"

definition no_duration :: "string \<Rightarrow> rat option" where
  "no_duration f = None"

definition no_duration_for :: "string \<Rightarrow> rat \<Rightarrow> string \<Rightarrow> rat option" where
  "no_duration_for g d f = (if f = g then None else Some d)"

definition exits_with :: "int \<Rightarrow> string list \<Rightarrow> int" where
  "exits_with code argv = code"

definition sample_env ::
  "string list \<Rightarrow> (string \<Rightarrow> rat option) \<Rightarrow> (string list \<Rightarrow> int) \<Rightarrow> env" where
  "sample_env names probe status =
     \<lparr>basename = posix_basename, dirname = posix_dirname, splitext = posix_splitext,
      join = posix_join, repr_float = decimal_text, ffmpeg_present = True,
      ffprobe_duration = probe, ffmpeg_status = status,
      listdir = (\<lambda>folder. Some names), walk = (\<lambda>folder. [(folder, names)]),
      answer = (\<lambda>f. ''y'')\<rparr>"

definition no_flags :: cmdline where
  "no_flags =
     \<lparr>given_source = None, given_R = False, given_S = False, given_I = False,
      given_N = None, given_T = None, given_X = None, given_Y = None,
      given_P = False, given_D = False, given_help = False\<rparr>"

definition fresh :: world where
  "fresh = \<lparr>fs = {||}, stdout = [], trace = []\<rparr>"

section \<open>Properties\<close>

subsection \<open>Decimal text determines the number\<close>

lemma digit_val_nth: "n < 10 \<Longrightarrow> digit_val (''0123456789'' ! n) = n"
proof -
  assume "n < 10"
  then have "n \<in> {0, 1, 2, 3, 4, 5, 6, 7, 8, 9}" by auto
  then show ?thesis by (auto simp: digit_val_def)
qed

lemma nat_of_str_snoc: "nat_of_str (cs @ [c]) = 10 * nat_of_str cs + digit_val c"
  by (simp add: nat_of_str_def)

lemma nat_of_str_str_nat: "nat_of_str (str_nat n) = n"
proof (induction n rule: str_nat.induct)
  case (1 n)
  show ?case
  proof (cases "n < 10")
    case True
    then show ?thesis
      by (simp add: str_nat.simps [of n] nat_of_str_def digit_val_nth)
  next
    case False
    with 1 have "nat_of_str (str_nat (n div 10)) = n div 10" by simp
    with False show ?thesis
      by (simp add: str_nat.simps [of n] nat_of_str_snoc digit_val_nth)
  qed
qed

lemma str_nat_inj: "str_nat m = str_nat n \<Longrightarrow> m = n"
  by (metis nat_of_str_str_nat)

lemma digit_not_minus: "n < 10 \<Longrightarrow> ''0123456789'' ! n \<noteq> CHR ''-''"
proof -
  assume "n < 10"
  then have "n \<in> {0, 1, 2, 3, 4, 5, 6, 7, 8, 9}" by auto
  then show ?thesis by auto
qed

lemma str_nat_no_minus: "CHR ''-'' \<notin> set (str_nat n)"
proof (induction n rule: str_nat.induct)
  case (1 n)
  show ?case
  proof (cases "n < 10")
    case True
    then show ?thesis by (simp add: str_nat.simps [of n] digit_not_minus [symmetric])
  next
    case False
    with 1 have "CHR ''-'' \<notin> set (str_nat (n div 10))" by simp
    with False show ?thesis
      by (simp add: str_nat.simps [of n] digit_not_minus [symmetric])
  qed
qed

lemma str_int_inj: "str_int i = str_int j \<Longrightarrow> i = j"
proof -
  assume eq: "str_int i = str_int j"
  have neg: "CHR ''-'' # str_nat a \<noteq> str_nat b" for a b
    using str_nat_no_minus [of b] by (metis list.set_intros(1))
  show ?thesis
  proof (cases "i < 0")
    case True
    show ?thesis
    proof (cases "j < 0")
      case True
      with \<open>i < 0\<close> eq have "nat (- i) = nat (- j)"
        by (simp add: str_int_def str_nat_inj)
      with True \<open>i < 0\<close> show ?thesis by simp
    next
      case False
      with \<open>i < 0\<close> eq neg show ?thesis by (simp add: str_int_def)
    qed
  next
    case False
    show ?thesis
    proof (cases "j < 0")
      case True
      with \<open>\<not> i < 0\<close> eq neg [of "nat (- j)" "nat i"] show ?thesis
        by (simp add: str_int_def)
    next
      case False
      with \<open>\<not> i < 0\<close> eq have "nat i = nat j"
        by (simp add: str_int_def str_nat_inj)
      with False \<open>\<not> i < 0\<close> show ?thesis by simp
    qed
  qed
qed

subsection \<open>The allocator's loop ends\<close>

text \<open>
  The candidates \<open>output_dir_k\<close> are pairwise different, so only finitely many of them
  exist; each turn of the loop either uses one of them up or reaches a free name.
\<close>

lemma candidates_finite:
  "finite {k. counter \<le> k \<and> output_dir @ ''_'' @ str_int k |\<in>| paths}"
proof -
  have "inj (\<lambda>k. output_dir @ ''_'' @ str_int k)"
    by (rule injI) (simp add: str_int_inj)
  then have "finite ((\<lambda>k. output_dir @ ''_'' @ str_int k) -` fset paths)"
    by (simp add: finite_vimageI)
  moreover have "{k. counter \<le> k \<and> output_dir @ ''_'' @ str_int k |\<in>| paths}
      \<subseteq> (\<lambda>k. output_dir @ ''_'' @ str_int k) -` fset paths"
    by auto
  ultimately show ?thesis by (rule rev_finite_subset)
qed

termination unique_folder
proof (relation "measure (\<lambda>(paths, output_dir, name, counter).
         2 * card {k. counter \<le> k \<and> output_dir @ ''_'' @ str_int k |\<in>| paths}
         + (if name |\<in>| paths then 1 else 0))")
  show "wf (measure (\<lambda>(paths, output_dir, name, counter).
         2 * card {k. counter \<le> k \<and> output_dir @ ''_'' @ str_int k |\<in>| paths}
         + (if name |\<in>| paths then 1 else 0)))" by simp
next
  fix paths :: "string fset" and output_dir unique_folder_name :: string and counter :: int
  assume "unique_folder_name |\<in>| paths"
  let ?C = "\<lambda>c. {k. c \<le> k \<and> output_dir @ ''_'' @ str_int k |\<in>| paths}"
  have split: "?C counter = (if output_dir @ ''_'' @ str_int counter |\<in>| paths
                 then insert counter (?C (counter + 1)) else ?C (counter + 1))"
    by (auto simp: order_le_less) 
  have fin: "finite (?C (counter + 1))" by (rule candidates_finite)
  have notin: "counter \<notin> ?C (counter + 1)" by simp
  have "card (?C counter) = (if output_dir @ ''_'' @ str_int counter |\<in>| paths
                 then Suc (card (?C (counter + 1))) else card (?C (counter + 1)))"
    using fin notin by (subst split) (simp del: One_nat_def)
  with \<open>unique_folder_name |\<in>| paths\<close>
  show "((paths, output_dir, output_dir @ ''_'' @ str_int counter, counter + 1),
         (paths, output_dir, unique_folder_name, counter)) \<in> measure (\<lambda>(paths, output_dir, name, counter).
         2 * card {k. counter \<le> k \<and> output_dir @ ''_'' @ str_int k |\<in>| paths}
         + (if name |\<in>| paths then 1 else 0))"
    by simp
qed

declare unique_folder.simps [simp del]

lemma unique_folder_unused: "unique_folder paths output_dir name counter |\<notin>| paths"
proof (induction paths output_dir name counter rule: unique_folder.induct)
  case (1 paths output_dir name counter)
  then show ?case
    by (cases "name |\<in>| paths")
       (simp_all add: unique_folder.simps [of paths output_dir name counter])
qed

lemma unique_folder_free: "name |\<notin>| paths \<Longrightarrow> unique_folder paths output_dir name counter = name"
  by (simp add: unique_folder.simps [of paths output_dir name counter])

lemma unique_folder_taken:
  "name |\<in>| paths \<Longrightarrow>
   \<exists>k\<ge>counter. unique_folder paths output_dir name counter = output_dir @ ''_'' @ str_int k
     \<and> (\<forall>j. counter \<le> j \<and> j < k \<longrightarrow> output_dir @ ''_'' @ str_int j |\<in>| paths)"
proof (induction paths output_dir name counter rule: unique_folder.induct)
  case (1 paths output_dir name counter)
  let ?next = "output_dir @ ''_'' @ str_int counter"
  from "1.prems" have step: "unique_folder paths output_dir name counter
      = unique_folder paths output_dir ?next (counter + 1)"
    by (simp add: unique_folder.simps [of paths output_dir name counter])
  show ?case
  proof (cases "?next |\<in>| paths")
    case False
    then have "unique_folder paths output_dir name counter = ?next"
      using step by (simp add: unique_folder_free)
    then show ?thesis by (intro exI [of _ counter]) auto
  next
    case True
    with "1.IH" [OF "1.prems" True] obtain k where k: "counter + 1 \<le> k"
      "unique_folder paths output_dir ?next (counter + 1) = output_dir @ ''_'' @ str_int k"
      "\<forall>j. counter + 1 \<le> j \<and> j < k \<longrightarrow> output_dir @ ''_'' @ str_int j |\<in>| paths"
      by blast
    have "output_dir @ ''_'' @ str_int j |\<in>| paths" if "counter \<le> j" "j < k" for j
    proof (cases "j = counter")
      case True
      with \<open>?next |\<in>| paths\<close> show ?thesis by simp
    next
      case False
      with that k(3) show ?thesis by simp
    qed
    with k(1,2) step show ?thesis by (intro exI [of _ k]) simp
  qed
qed

lemmas run_defs = extract_frames_def sampling_filter_def extract_frames_fallback_def
  fast_vf_args_def ensure_dir_def emit_def print_def Let_def

lemmas sample_defs = sample_env_def duration_of_def no_duration_def no_duration_for_def
  exits_with_def

lemmas path_defs = posix_basename_def posix_dirname_def posix_splitext_def posix_join_def

lemmas batch_defs = main_def parse_args_def no_flags_def process_folder_def process_file_def
  process_video_def is_video_def endswith_def allocate_output_dir_def frames_folder_def

subsection \<open>What a call leaves in the state\<close>

lemma frame_times_append: "frame_times (xs @ ys) = frame_times xs @ frame_times ys"
  by (induction xs rule: frame_times.induct) simp_all

lemma fallback_frame_fields:
  "fs (fallback_frame E video_file output_dir base_name interval width height i s) = fs s"
  "stdout (fallback_frame E video_file output_dir base_name interval width height i s) = stdout s"
  "frame_times (trace (fallback_frame E video_file output_dir base_name interval width height i s))
     = frame_times (trace s) @ [of_nat i * interval]"
  by (simp_all add: fallback_frame_def emit_def Let_def frame_times_append)

lemma fallback_loop_fields:
  "fs (fold (fallback_frame E video_file output_dir base_name interval width height) is s) = fs s"
  "stdout (fold (fallback_frame E video_file output_dir base_name interval width height) is s)
     = stdout s"
  "frame_times (trace (fold (fallback_frame E video_file output_dir base_name interval width height) is s))
     = frame_times (trace s) @ map (\<lambda>i. of_nat i * interval) is"
  by (induction "is" arbitrary: s) (simp_all add: fallback_frame_fields)

lemma ensure_dir_fields:
  "stdout (ensure_dir d s) = stdout s" "trace (ensure_dir d s) = trace s"
  by (simp_all add: ensure_dir_def)

lemma emit_fields:
  "stdout (emit e s) = stdout s" "fs (emit e s) = fs s" "trace (emit e s) = trace s @ [e]"
  by (simp_all add: emit_def)

lemma print_fields:
  "stdout (print l s) = stdout s @ [l]" "fs (print l s) = fs s" "trace (print l s) = trace s"
  by (simp_all add: print_def)


lemma fallback_loop_trace:
  "\<exists>evs. trace (fold (fallback_frame E video_file output_dir base_name interval width height) is s)
            = trace s @ evs
        \<and> (\<forall>e \<in> set evs. \<not> is_fast e \<and> \<not> is_fallback e)"
proof (induction "is" arbitrary: s)
  case Nil
  then show ?case by simp
next
  case (Cons i "is")
  let ?s = "fallback_frame E video_file output_dir base_name interval width height i s"
  from Cons [of ?s] obtain evs where
    evs: "trace (fold (fallback_frame E video_file output_dir base_name interval width height) is ?s)
          = trace ?s @ evs" "\<forall>e \<in> set evs. \<not> is_fast e \<and> \<not> is_fallback e"
    by blast
  obtain e where e: "trace ?s = trace s @ [e]" "\<not> is_fast e" "\<not> is_fallback e"
    by (simp add: fallback_frame_def emit_def Let_def)
  from evs e show ?case
    by (intro exI [of _ "e # evs"]) simp
qed

lemma fallback_trace:
  "\<exists>rest. trace (snd (extract_frames_fallback E video_file output_dir n silent info width height s))
            = trace s @ Fallback video_file # rest
        \<and> (\<forall>e \<in> set rest. \<not> is_fast e \<and> \<not> is_fallback e)"
proof (cases "ffprobe_duration E video_file")
  case None
  then show ?thesis
    by (intro exI [of _ "[Probe video_file]"])
       (simp add: extract_frames_fallback_def Let_def emit_fields ensure_dir_fields)
next
  case (Some d)
  show ?thesis
  proof (cases "n = 0")
    case True
    with Some show ?thesis
      by (intro exI [of _ "[Probe video_file]"])
         (simp add: extract_frames_fallback_def Let_def emit_fields ensure_dir_fields)
  next
    case False
    let ?s2 = "emit (Probe video_file) (ensure_dir output_dir (emit (Fallback video_file) s))"
    obtain evs where evs:
      "trace (fold (fallback_frame E video_file output_dir
                 (fst (splitext E (basename E video_file))) (d / of_int n) width height)
               [0..<nat n] ?s2) = trace ?s2 @ evs"
      "\<forall>e \<in> set evs. \<not> is_fast e \<and> \<not> is_fallback e"
      using fallback_loop_trace by blast
    with Some False show ?thesis
      by (intro exI [of _ "Probe video_file # evs"])
         (simp add: extract_frames_fallback_def Let_def emit_fields ensure_dir_fields)
  qed
qed

subsection \<open>The schedule of the fallback extractor\<close>



subsection \<open>The output folder\<close>

text \<open>
  C7. In dedicated-subfolder mode, whatever paths exist when the allocator is called
  (finitely many), the path it returns is not one of them; it is \<^verbatim>\<open><stem>_frames\<close> when
  that is free, and otherwise \<^verbatim>\<open><stem>_frames_k\<close> for the least \<open>k \<ge> 1\<close> whose
  candidate is free, the candidates with smaller suffixes all being taken.
\<close>

theorem allocator_first_unused:
  assumes "\<not> same_dir"
  shows "allocate_output_dir E video_file same_dir paths |\<notin>| paths
    \<and> (frames_folder E video_file |\<notin>| paths \<longrightarrow>
         allocate_output_dir E video_file same_dir paths = frames_folder E video_file)
    \<and> (frames_folder E video_file |\<in>| paths \<longrightarrow>
         (\<exists>k\<ge>1. allocate_output_dir E video_file same_dir paths
                   = frames_folder E video_file @ ''_'' @ str_int k
               \<and> (\<forall>j. 1 \<le> j \<and> j < k \<longrightarrow>
                      frames_folder E video_file @ ''_'' @ str_int j |\<in>| paths)))"
proof -
  from assms have alloc: "allocate_output_dir E video_file same_dir paths
      = unique_folder paths (frames_folder E video_file) (frames_folder E video_file) 1"
    by (simp add: allocate_output_dir_def Let_def)
  show ?thesis
    unfolding alloc
    using unique_folder_unused [of paths "frames_folder E video_file" "frames_folder E video_file" 1]
      unique_folder_taken [of "frames_folder E video_file" paths 1 "frames_folder E video_file"]
    by (auto simp add: unique_folder_free)
qed

theorem allocator_first_unused_witness:
  "frames_folder (sample_env [] no_duration (exits_with 0)) ''v/foo.mp4'' = ''v/foo_frames''
   \<and> ''v/foo_frames'' |\<in>| {|''v/foo_frames'', ''v/foo_frames_1''|}
   \<and> allocate_output_dir (sample_env [] no_duration (exits_with 0)) ''v/foo.mp4'' False
        {|''v/foo_frames'', ''v/foo_frames_1''|} = ''v/foo_frames_2''
   \<and> ''v/foo_frames_2'' |\<notin>| {|''v/foo_frames'', ''v/foo_frames_1''|}"
proof -
  have base: "frames_folder (sample_env [] no_duration (exits_with 0)) ''v/foo.mp4'' = ''v/foo_frames''"
    by (simp add: frames_folder_def sample_defs path_defs)
  have "str_int 1 = ''1''" "str_int 2 = ''2''"
    by (simp_all add: str_int_def str_nat.simps)
  obtain k where k: "1 \<le> k"
    "allocate_output_dir (sample_env [] no_duration (exits_with 0)) ''v/foo.mp4'' False
        {|''v/foo_frames'', ''v/foo_frames_1''|} = ''v/foo_frames'' @ ''_'' @ str_int k"
    "\<forall>j. 1 \<le> j \<and> j < k \<longrightarrow> ''v/foo_frames'' @ ''_'' @ str_int j |\<in>| {|''v/foo_frames'', ''v/foo_frames_1''|}"
    "allocate_output_dir (sample_env [] no_duration (exits_with 0)) ''v/foo.mp4'' False
        {|''v/foo_frames'', ''v/foo_frames_1''|} |\<notin>| {|''v/foo_frames'', ''v/foo_frames_1''|}"
    using allocator_first_unused [of False "sample_env [] no_duration (exits_with 0)" "''v/foo.mp4''"
        "{|''v/foo_frames'', ''v/foo_frames_1''|}"]
    unfolding base by auto
  have "k \<noteq> 1" using k(2,4) \<open>str_int 1 = ''1''\<close> by auto
  have "\<not> 2 < k"
  proof
    assume "2 < k"
    with k(3) have "''v/foo_frames'' @ ''_'' @ str_int 2 |\<in>| {|''v/foo_frames'', ''v/foo_frames_1''|}"
      by simp
    with \<open>str_int 2 = ''2''\<close> show False by simp
  qed
  with \<open>k \<noteq> 1\<close> k(1) have "k = 2" by simp
  with k(2) \<open>str_int 2 = ''2''\<close> base show ?thesis by simp
qed

subsection \<open>A count of zero\<close>

text \<open>
  C2. The specification: with a count of 0 and no interval the planner asks for all
  frames and no arithmetic fault is raised. The code on \<^verbatim>\<open>-N 0\<close>, for a video of 10 seconds: the
  duration is probed, \<^verbatim>\<open>duration / frame_count\<close> raises \<^verbatim>\<open>ZeroDivisionError\<close>, no handler
  catches it, and the run ends there without a single ffmpeg call.
\<close>

theorem zero_count_divides_by_zero:
  "main (sample_env [''clip.mp4''] (duration_of 10) (exits_with 0)) (no_flags\<lparr>given_N := Some 0\<rparr>) fresh
     = (Inl ZeroDivisionError,
        \<lparr>fs = {|''./clip_frames''|}, stdout = [], trace = [Probe ''./clip.mp4'']\<rparr>)"
  by (simp add: batch_defs run_defs path_defs sample_defs fresh_def
        unique_folder.simps [of "{||}"])

subsection \<open>The fallback under an interval\<close>

text \<open>
  C3. The specification: after a failure of the fast path under an interval \<open>i > 0\<close>,
  the fallback issues \<open>\<lceil>d / i\<rceil>\<close> per-frame calls. The code with an interval of 5, the default count
  16 and a duration of 100, the fast call failing: the fallback is handed the count and
  never the interval, so it issues 16 calls, \<open>100 / 16\<close> apart, where \<open>\<lceil>100 / 5\<rceil>\<close> is 20.
\<close>

theorem fallback_ignores_interval:
  "frame_times (trace (snd (extract_frames
      (sample_env [''clip.mp4''] (duration_of 100) (exits_with 1))
      ''clip.mp4'' ''clip_frames'' 16 5 False False 0 0 fresh)))
     = map (\<lambda>i. of_nat i * (100 / 16)) [0..<16]
   \<and> length (map (\<lambda>i. of_nat i * (100 / 16 :: rat)) [0..<16]) = 16
   \<and> \<lceil>(100::rat) / of_int 5\<rceil> = 20"
  by (simp add: run_defs path_defs sample_defs fresh_def fallback_loop_fields)

subsection \<open>Both switches given\<close>

text \<open>
  C8. The specification: a run given both \<^verbatim>\<open>-N\<close> and \<^verbatim>\<open>-T\<close> ends with a
  configuration error before any file is touched, also for \<^verbatim>\<open>-N 16\<close>. The code on \<^verbatim>\<open>-N 16 -T 5\<close>: the test of
  line 169 compares the count with its default 16, the run goes on, a folder is created
  and ffmpeg is run on the video; nothing is printed.
\<close>

theorem explicit_default_count_not_rejected:
  "main (sample_env [''clip.mp4''] (duration_of 100) (exits_with 0))
      (no_flags\<lparr>given_N := Some 16, given_T := Some 5\<rparr>) fresh
     = (Inr (),
        \<lparr>fs = {|''./clip_frames''|}, stdout = [],
         trace = [Fast [''ffmpeg'', ''-i'', ''./clip.mp4'', ''-vf'', ''fps=1/5'',
                        ''-pix_fmt'', ''yuv420p'', ''-q:v'', ''2'',
                        ''./clip_frames/clip_%03d.jpg''] 0]\<rparr>)"
  by (simp add: batch_defs run_defs path_defs sample_defs fresh_def str_int_def
        str_nat.simps unique_folder.simps [of "{||}"])

subsection \<open>The scaling directive\<close>

lemma fast_call_filter:
  assumes "sampling_filter E video_file n time_interval (ensure_dir output_dir s) = (Inr vf, s1)"
  shows "\<exists>argv st post.
           trace (snd (extract_frames E video_file output_dir n time_interval silent info
                         width height s)) = trace s1 @ Fast argv st # post
         \<and> argv ! 4 = fast_vf_args vf width height"
proof -
  let ?argv = "[''ffmpeg'', ''-i'', video_file, ''-vf'', fast_vf_args vf width height,
                ''-pix_fmt'', ''yuv420p'', ''-q:v'', ''2'',
                join E output_dir (fst (splitext E (basename E video_file)) @ ''_%03d.jpg'')]"
  let ?st = "ffmpeg_status E ?argv"
  have filter: "?argv ! 4 = fast_vf_args vf width height" by simp
  show ?thesis
  proof (cases "?st = 0")
    case True
    with assms have "trace (snd (extract_frames E video_file output_dir n time_interval
        silent info width height s)) = trace s1 @ Fast ?argv ?st # []"
      by (simp add: extract_frames_def Let_def emit_fields)
    with filter show ?thesis by blast
  next
    case False
    let ?s3 = "if \<not> silent \<and> \<not> info then
                 print (''Fast method failed for '' @ video_file @
                        ''. Falling back to slower method.'') (emit (Fast ?argv ?st) s1)
               else emit (Fast ?argv ?st) s1"
    have t3: "trace ?s3 = trace s1 @ [Fast ?argv ?st]"
      by (simp add: emit_fields print_fields)
    from False assms have "extract_frames E video_file output_dir n time_interval silent info
        width height s
        = extract_frames_fallback E video_file output_dir n silent info width height ?s3"
      by (simp add: extract_frames_def Let_def)
    moreover obtain rest where
      "trace (snd (extract_frames_fallback E video_file output_dir n silent info
                     width height ?s3)) = trace ?s3 @ Fallback video_file # rest"
      using fallback_trace by blast
    ultimately have "trace (snd (extract_frames E video_file output_dir n time_interval
        silent info width height s)) = trace s1 @ Fast ?argv ?st # Fallback video_file # rest"
      using t3 by simp
    with filter show ?thesis by blast
  qed
qed

lemma frame_call_filter:
  "\<exists>argv st. trace (fallback_frame E video_file output_dir base_name interval width height i s)
                = trace s @ [Frame (of_nat i * interval) argv st]
            \<and> argv ! 4 = fallback_vf_args E (of_nat i * interval) width height"
  by (simp add: fallback_frame_def Let_def emit_fields)

text \<open>
  C6. The scaling directive depends on width and height alone: none when neither is
  positive (so none for 0 and 0), \<^verbatim>\<open>,scale=W:H\<close> when both are positive, \<^verbatim>\<open>,scale=W:-1\<close>
  when only the width is, \<^verbatim>\<open>,scale=-1:H\<close> when only the height is. The filter handed to
  ffmpeg, the argument after \<^verbatim>\<open>-vf\<close>, is the sampling filter followed by the directive,
  in the fast call and in every per-frame call of the fallback.
\<close>

theorem scale_directive:
  "\<exists>directive.
      (\<not> 0 < width \<and> \<not> 0 < height \<longrightarrow> directive = [])
    \<and> (0 < width \<and> 0 < height \<longrightarrow>
         directive = '',scale='' @ str_int width @ '':'' @ str_int height)
    \<and> (0 < width \<and> \<not> 0 < height \<longrightarrow> directive = '',scale='' @ str_int width @ '':-1'')
    \<and> (\<not> 0 < width \<and> 0 < height \<longrightarrow> directive = '',scale=-1:'' @ str_int height)
    \<and> (\<forall>vf. fast_vf_args vf width height = vf @ directive)
    \<and> (\<forall>E timestamp. fallback_vf_args E timestamp width height
           = fallback_vf_args E timestamp 0 0 @ directive)
    \<and> (\<forall>E video_file output_dir n time_interval silent info s vf s1.
          sampling_filter E video_file n time_interval (ensure_dir output_dir s) = (Inr vf, s1)
          \<longrightarrow> (\<exists>argv st post.
                 trace (snd (extract_frames E video_file output_dir n time_interval silent info
                               width height s)) = trace s1 @ Fast argv st # post
               \<and> argv ! 4 = vf @ directive))
    \<and> (\<forall>E video_file output_dir base_name interval i s.
          \<exists>argv st.
            trace (fallback_frame E video_file output_dir base_name interval width height i s)
              = trace s @ [Frame (of_nat i * interval) argv st]
          \<and> argv ! 4 = fallback_vf_args E (of_nat i * interval) 0 0 @ directive)"
proof -
  obtain directive where d:
    "\<not> 0 < width \<and> \<not> 0 < height \<longrightarrow> directive = []"
    "0 < width \<and> 0 < height \<longrightarrow>
       directive = '',scale='' @ str_int width @ '':'' @ str_int height"
    "0 < width \<and> \<not> 0 < height \<longrightarrow> directive = '',scale='' @ str_int width @ '':-1''"
    "\<not> 0 < width \<and> 0 < height \<longrightarrow> directive = '',scale=-1:'' @ str_int height"
    "\<forall>vf. fast_vf_args vf width height = vf @ directive"
    "\<forall>E timestamp. fallback_vf_args E timestamp width height
           = fallback_vf_args E timestamp 0 0 @ directive"
  proof -
    consider (both) "0 < width" "0 < height" | (w) "0 < width" "\<not> 0 < height"
      | (h) "\<not> 0 < width" "0 < height" | (none) "\<not> 0 < width" "\<not> 0 < height"
      by blast
    then show ?thesis
    proof cases
      case both
      then show ?thesis
        using that [of "'',scale='' @ str_int width @ '':'' @ str_int height"]
        by (simp add: fast_vf_args_def fallback_vf_args_def)
    next
      case w
      then show ?thesis
        using that [of "'',scale='' @ str_int width @ '':-1''"]
        by (simp add: fast_vf_args_def fallback_vf_args_def)
    next
      case h
      then show ?thesis
        using that [of "'',scale=-1:'' @ str_int height"]
        by (simp add: fast_vf_args_def fallback_vf_args_def)
    next
      case none
      then show ?thesis
        using that [of "[]"] by (simp add: fast_vf_args_def fallback_vf_args_def)
    qed
  qed
  have fast: "\<exists>argv st post.
         trace (snd (extract_frames E video_file output_dir n time_interval silent info
                       width height s)) = trace s1 @ Fast argv st # post
       \<and> argv ! 4 = vf @ directive"
    if "sampling_filter E video_file n time_interval (ensure_dir output_dir s) = (Inr vf, s1)"
    for E video_file output_dir n time_interval silent info s vf s1
    using fast_call_filter [OF that, of silent info width height] d(5) by simp
  have frame: "\<exists>argv st.
         trace (fallback_frame E video_file output_dir base_name interval width height i s)
           = trace s @ [Frame (of_nat i * interval) argv st]
       \<and> argv ! 4 = fallback_vf_args E (of_nat i * interval) 0 0 @ directive"
    for E video_file output_dir base_name interval i s
    using frame_call_filter [of E video_file output_dir base_name interval width height i s] d(6)
    by simp
  from d fast frame show ?thesis
    by (intro exI [of _ directive]) blast
qed

theorem scale_directive_witness:
  "fast_vf_args ''fps=1/5'' 0 0 = ''fps=1/5''
   \<and> fast_vf_args ''fps=1/5'' 640 480 = ''fps=1/5,scale=640:480''
   \<and> fast_vf_args ''fps=1/5'' 640 0 = ''fps=1/5,scale=640:-1''
   \<and> fast_vf_args ''fps=1/5'' 0 480 = ''fps=1/5,scale=-1:480''"
proof -
  have n: "str_int 640 = ''640''" "str_int 480 = ''480''"
    by (simp_all add: str_int_def str_nat.simps)
  have "fast_vf_args ''fps=1/5'' 0 0 = ''fps=1/5''"
    using scale_directive [of 0 0] by auto
  moreover have "fast_vf_args ''fps=1/5'' 640 480 = ''fps=1/5,scale=640:480''"
    using scale_directive [of 640 480] n by auto
  moreover have "fast_vf_args ''fps=1/5'' 640 0 = ''fps=1/5,scale=640:-1''"
    using scale_directive [of 640 0] n by auto
  moreover have "fast_vf_args ''fps=1/5'' 0 480 = ''fps=1/5,scale=-1:480''"
    using scale_directive [of 0 480] n by auto
  ultimately show ?thesis by simp
qed

subsection \<open>The default policy\<close>



subsection \<open>Fast first, fallback on failure\<close>




subsection \<open>A file without a duration\<close>

lemma fallback_no_duration:
  "ffprobe_duration E video_file = None \<Longrightarrow>
   fst (extract_frames_fallback E video_file output_dir n silent info width height s)
     = Inl ValueError"
  by (simp add: extract_frames_fallback_def Let_def)

lemma extract_frames_no_duration:
  assumes "ffprobe_duration E video_file = None"
  shows "fst (extract_frames E video_file output_dir n time_interval silent info width height s)
           = Inl ValueError
       \<or> (\<exists>argv st. trace (snd (extract_frames E video_file output_dir n time_interval
                                  silent info width height s)) = trace s @ [Fast argv st])"
proof (cases "0 < time_interval")
  case False
  with assms show ?thesis
    by (simp add: extract_frames_def sampling_filter_def Let_def)
next
  case True
  then show ?thesis
    using fallback_no_duration [OF assms]
    by (simp add: extract_frames_def sampling_filter_def Let_def emit_fields ensure_dir_fields)
qed

text \<open>
  C4, as the code has it. When the duration of a file is asked for and cannot be
  determined, \<^verbatim>\<open>float\<close> raises \<^verbatim>\<open>ValueError\<close> and nothing catches it: the error leaves
  \<^verbatim>\<open>process_file\<close> and ends the loop over the files, so the files after it are not
  processed, and the process ends with status 1.
\<close>

theorem probe_failure_ends_run:
  assumes "ffprobe_duration E f = None"
    and "Probe f \<in> set (drop (length (trace s))
           (trace (snd (process_file E f silent info n time_interval prompt same_dir
                          width height s))))"
  shows "fst (process_file E f silent info n time_interval prompt same_dir width height s)
           = Inl ValueError
       \<and> process_files E (f # rest) silent info n time_interval prompt same_dir width height s
           = process_file E f silent info n time_interval prompt same_dir width height s
       \<and> exit_status (fst (process_files E (f # rest) silent info n time_interval prompt
                              same_dir width height s)) = 1"
proof -
  have video: "fst (process_video E f silent info n time_interval same_dir width height s')
                 = Inl ValueError
       \<or> (\<exists>argv st. trace (snd (process_video E f silent info n time_interval same_dir
                                  width height s')) = trace s' @ [Fast argv st])" for s'
  proof -
    let ?s1 = "if \<not> silent \<and> info then print (''Processing: '' @ f) s' else s'"
    have "trace ?s1 = trace s'" by (simp add: print_fields)
    with extract_frames_no_duration [OF assms(1),
        of "allocate_output_dir E f same_dir (fs ?s1)" n time_interval silent info width height ?s1]
    show ?thesis
      unfolding process_video_def Let_def by simp
  qed
  have "fst (process_file E f silent info n time_interval prompt same_dir width height s)
          = Inl ValueError
      \<or> drop (length (trace s))
           (trace (snd (process_file E f silent info n time_interval prompt same_dir
                          width height s))) = []
      \<or> (\<exists>argv st. drop (length (trace s))
           (trace (snd (process_file E f silent info n time_interval prompt same_dir
                          width height s))) = [Fast argv st])"
    using video [of s] video [of "print (''Process '' @ f @ ''? (y/n/a) '') s"]
    by (auto simp add: process_file_def Let_def print_fields)
  with assms(2)
  have raised: "fst (process_file E f silent info n time_interval prompt same_dir width height s)
                  = Inl ValueError"
    by auto
  then have "process_files E (f # rest) silent info n time_interval prompt same_dir width height s
           = process_file E f silent info n time_interval prompt same_dir width height s"
    by (cases "process_file E f silent info n time_interval prompt same_dir width height s") simp
  with raised show ?thesis by simp
qed

theorem probe_failure_ends_run_witness:
  "ffprobe_duration (sample_env [''a.mp4'', ''b.mp4''] (no_duration_for ''./a.mp4'' 10)
       (exits_with 0)) ''./a.mp4'' = None
   \<and> Probe ''./a.mp4'' \<in> set (drop (length (trace fresh))
        (trace (snd (process_file (sample_env [''a.mp4'', ''b.mp4'']
              (no_duration_for ''./a.mp4'' 10) (exits_with 0))
            ''./a.mp4'' False False 16 0 False False 0 0 fresh))))
   \<and> process_files (sample_env [''a.mp4'', ''b.mp4''] (no_duration_for ''./a.mp4'' 10)
          (exits_with 0))
        [''./a.mp4'', ''./b.mp4''] False False 16 0 False False 0 0 fresh
      = (Inl ValueError,
         \<lparr>fs = {|''./a_frames''|}, stdout = [], trace = [Probe ''./a.mp4'']\<rparr>)"
proof -
  let ?E = "sample_env [''a.mp4'', ''b.mp4''] (no_duration_for ''./a.mp4'' 10) (exits_with 0)"
  have none: "ffprobe_duration ?E ''./a.mp4'' = None"
    by (simp add: sample_defs)
  have one: "process_file ?E ''./a.mp4'' False False 16 0 False False 0 0 fresh
      = (Inl ValueError,
         \<lparr>fs = {|''./a_frames''|}, stdout = [], trace = [Probe ''./a.mp4'']\<rparr>)"
    by (simp add: batch_defs run_defs path_defs sample_defs fresh_def
          unique_folder.simps [of "{||}"])
  have asked: "Probe ''./a.mp4'' \<in> set (drop (length (trace fresh))
        (trace (snd (process_file ?E ''./a.mp4'' False False 16 0 False False 0 0 fresh))))"
    by (simp add: one) (simp add: fresh_def)
  from probe_failure_ends_run [OF none asked, of "[''./b.mp4'']"] one none asked
  show ?thesis by simp
qed

text \<open>
  A folder holding \<^verbatim>\<open>a.mp4\<close> without a duration and \<^verbatim>\<open>b.mp4\<close> of 10 seconds: the run
  ends at \<^verbatim>\<open>a.mp4\<close> with the error, \<^verbatim>\<open>b.mp4\<close> is never touched, nothing is printed.
\<close>

theorem probe_failure_counterexample:
  "main (sample_env [''a.mp4'', ''b.mp4''] (no_duration_for ''./a.mp4'' 10) (exits_with 0))
      no_flags fresh
     = (Inl ValueError,
        \<lparr>fs = {|''./a_frames''|}, stdout = [], trace = [Probe ''./a.mp4'']\<rparr>)"
  by (simp add: batch_defs run_defs path_defs sample_defs fresh_def
        unique_folder.simps [of "{||}"])

subsection \<open>A file on which every ffmpeg call fails\<close>





end
